theory Spec2Isabelle
  imports Main "HOL-Library.Word"
begin

section \<open>The Excel-to-text component (src/components/TheExcelToText.vue)\<close>

text \<open>
  The component's script is embedded as pure functions. JavaScript strings are
  modelled as \<open>string\<close>; the four Chinese message literals of the source are written
  as their UTF-8 bytes. The only character-level operation of the source, the regular
  expression of \<open>downloadTextFile\<close>, looks for the ASCII characters \<open>.\<close> and \<open>/\<close> only.
\<close>

subsection \<open>Values delivered by the platform and by the xlsx library\<close>

text \<open>
  A thrown value is either an \<open>Error\<close> object with its message or something that is not an
  instance of \<open>Error\<close>.
\<close>

datatype js_exn = Error string | Thrown

type_synonym bytes = "8 word list"

text \<open>
  What the \<open>FileReader\<close> delivers for a file: its \<open>onerror\<close> handler runs, or its
  \<open>onload\<close> handler runs with \<open>e.target?.result\<close> being an \<open>ArrayBuffer\<close> (always truthy,
  also when it has no bytes) or null/undefined.
\<close>

datatype read_event = OnError | OnLoad "bytes option"

record File =
  name :: string
  reader :: read_event

text \<open>
  A cell of a row of \<open>sheet_to_json(worksheet, {header: 1})\<close>: a hole of the row array
  (\<open>Absent\<close>), \<open>undefined\<close>, \<open>null\<close>, a string, or any other value (number, boolean,
  date).
\<close>

datatype 'v cell = Absent | Undefined | Null | Str string | Val 'v

record 'ws workbook =
  SheetNames :: "string list"
  Sheets :: "string \<rightharpoonup> 'ws"

text \<open>
  The collaborators that are not code of the component: \<open>XLSX.read(data, {type: 'array'})\<close>,
  which returns a workbook or throws, \<open>XLSX.utils.sheet_to_json(worksheet, {header: 1})\<close>,
  applied to \<open>workbook.Sheets[sheetName]\<close> (undefined, here \<open>None\<close>, for a missing key), and
  the built-in \<open>String\<close> on values that are neither strings nor null/undefined.
\<close>

record ('ws, 'v) platform =
  xlsx_read :: "bytes \<Rightarrow> js_exn + 'ws workbook"
  sheet_to_json :: "'ws option \<Rightarrow> 'v cell list list"
  js_String :: "'v \<Rightarrow> string"

subsection \<open>Message literals\<close>

definition msg_processing_failed :: string where
  "msg_processing_failed =
     [CHR 0xE5, CHR 0xA4, CHR 0x84, CHR 0xE7, CHR 0x90, CHR 0x86, CHR 0xE6, CHR 0x96, CHR 0x87,
      CHR 0xE4, CHR 0xBB, CHR 0xB6, CHR 0xE6, CHR 0x97, CHR 0xB6, CHR 0xE5, CHR 0x87, CHR 0xBA,
      CHR 0xE9, CHR 0x94, CHR 0x99]"

definition msg_no_data :: string where
  "msg_no_data =
     [CHR 0xE6, CHR 0x97, CHR 0xA0, CHR 0xE6, CHR 0xB3, CHR 0x95, CHR 0xE8, CHR 0xAF, CHR 0xBB,
      CHR 0xE5, CHR 0x8F, CHR 0x96, CHR 0xE6, CHR 0x96, CHR 0x87, CHR 0xE4, CHR 0xBB, CHR 0xB6,
      CHR 0xE6, CHR 0x95, CHR 0xB0, CHR 0xE6, CHR 0x8D, CHR 0xAE]"

definition msg_read_failed :: string where
  "msg_read_failed =
     [CHR 0xE8, CHR 0xAF, CHR 0xBB, CHR 0xE5, CHR 0x8F, CHR 0x96, CHR 0xE6, CHR 0x96, CHR 0x87,
      CHR 0xE4, CHR 0xBB, CHR 0xB6, CHR 0xE6, CHR 0x97, CHR 0xB6, CHR 0xE5, CHR 0x87, CHR 0xBA,
      CHR 0xE9, CHR 0x94, CHR 0x99]"

definition msg_copy_failed :: string where
  "msg_copy_failed =
     [CHR 0xE5, CHR 0xA4, CHR 0x8D, CHR 0xE5, CHR 0x88, CHR 0xB6, CHR 0xE5, CHR 0x88, CHR 0xB0,
      CHR 0xE5, CHR 0x89, CHR 0xAA, CHR 0xE8, CHR 0xB4, CHR 0xB4, CHR 0xE6, CHR 0x9D, CHR 0xBF,
      CHR 0xE5, CHR 0xA4, CHR 0xB1, CHR 0xE8, CHR 0xB4, CHR 0xA5]"

subsection \<open>convertExcelToText\<close>

text \<open>
  The callback of \<open>row.some\<close>: \<open>cell !== undefined && cell !== null && cell !== ''\<close>.
  \<open>some\<close> does not call it on a hole, so a hole never makes the row non-empty.
\<close>

fun cell_present :: "'v cell \<Rightarrow> bool" where
  "cell_present Absent = False"
| "cell_present Undefined = False"
| "cell_present Null = False"
| "cell_present (Str s) = (s \<noteq> [])"
| "cell_present (Val v) = True"

fun some :: "('a \<Rightarrow> bool) \<Rightarrow> 'a list \<Rightarrow> bool" where
  "some p [] = False"
| "some p (x # xs) = (if p x then True else some p xs)"

text \<open>
  The callback of \<open>row.map\<close>; \<open>map\<close> leaves a hole a hole (\<open>None\<close>).
\<close>

fun cell_text :: "('v \<Rightarrow> string) \<Rightarrow> 'v cell \<Rightarrow> string option" where
  "cell_text str Absent = None"
| "cell_text str Undefined = Some []"
| "cell_text str Null = Some []"
| "cell_text str (Str s) = Some s"
| "cell_text str (Val v) = Some (str v)"

text \<open>
  \<open>Array.prototype.join\<close> on the mapped row: the separator goes before every element
  but the first, and a hole contributes the empty string.
\<close>

fun join_elem :: "string option \<Rightarrow> string" where
  "join_elem None = []"
| "join_elem (Some s) = s"

fun join :: "string \<Rightarrow> string option list \<Rightarrow> string" where
  "join sep [] = []"
| "join sep [x] = join_elem x"
| "join sep (x # y # ys) = join_elem x @ sep @ join sep (y # ys)"

definition tab :: string where
  "tab = [CHR 0x09]"

definition newline :: string where
  "newline = [CHR 0x0A]"

text \<open>The body of the inner \<open>jsonData.forEach\<close>, on the accumulator \<open>text\<close>.\<close>

definition row_step :: "('v \<Rightarrow> string) \<Rightarrow> string \<Rightarrow> 'v cell list \<Rightarrow> string" where
  "row_step str text row =
     (if some cell_present row
      then (text @ join tab (map (cell_text str) row)) @ newline
      else text)"

text \<open>The body of the outer \<open>workbook.SheetNames.forEach\<close>.\<close>

definition sheet_step ::
    "('ws, 'v) platform \<Rightarrow> 'ws workbook \<Rightarrow> string \<Rightarrow> string \<Rightarrow> string" where
  "sheet_step P wb text sheetName =
     (let worksheet = Sheets wb sheetName;
          jsonData = sheet_to_json P worksheet;
          text1 = text @ ''===== '' @ sheetName @ '' ====='' @ newline;
          text2 = foldl (row_step (js_String P)) text1 jsonData
      in text2 @ newline)"

definition workbook_text :: "('ws, 'v) platform \<Rightarrow> 'ws workbook \<Rightarrow> string" where
  "workbook_text P wb = foldl (sheet_step P wb) [] (SheetNames wb)"

text \<open>
  The promise of \<open>convertExcelToText\<close>: \<open>Inr\<close> the resolved text, \<open>Inl\<close> the value it is
  rejected with.
\<close>

definition convertExcelToText :: "('ws, 'v) platform \<Rightarrow> File \<Rightarrow> js_exn + string" where
  "convertExcelToText P f =
     (case reader f of
        OnError \<Rightarrow> Inl (Error msg_read_failed)
      | OnLoad None \<Rightarrow> Inl (Error msg_no_data)
      | OnLoad (Some data) \<Rightarrow>
          (case xlsx_read P data of
             Inl e \<Rightarrow> Inl e
           | Inr workbook \<Rightarrow> Inr (workbook_text P workbook)))"

subsection \<open>The conversion result as the specification words it\<close>

text \<open>
  A cell is blank when it is absent, null or the empty string; a row is retained when
  not every cell of it is blank. A retained row is its cells, blank ones as the empty
  string, with a tab between neighbours, and a newline; a sheet's block is its header
  line, its retained rows and one more newline.
\<close>

definition spec_blank :: "'v cell \<Rightarrow> bool" where
  "spec_blank c = (c = Absent \<or> c = Undefined \<or> c = Null \<or> c = Str [])"

definition spec_retained :: "'v cell list \<Rightarrow> bool" where
  "spec_retained row = (\<not> list_all spec_blank row)"

fun spec_cell :: "('v \<Rightarrow> string) \<Rightarrow> 'v cell \<Rightarrow> string" where
  "spec_cell str (Str s) = s"
| "spec_cell str (Val v) = str v"
| "spec_cell str _ = []"

fun spec_tabbed :: "string list \<Rightarrow> string" where
  "spec_tabbed [] = []"
| "spec_tabbed [s] = s"
| "spec_tabbed (s # t # ts) = s @ [CHR 0x09] @ spec_tabbed (t # ts)"

definition spec_line :: "('v \<Rightarrow> string) \<Rightarrow> 'v cell list \<Rightarrow> string" where
  "spec_line str row = spec_tabbed (map (spec_cell str) row) @ [CHR 0x0A]"

definition spec_header :: "string \<Rightarrow> string" where
  "spec_header sheetName = ''===== '' @ sheetName @ '' ====='' @ [CHR 0x0A]"

definition spec_block :: "('ws, 'v) platform \<Rightarrow> 'ws workbook \<Rightarrow> string \<Rightarrow> string" where
  "spec_block P wb sheetName =
     spec_header sheetName
     @ concat (map (spec_line (js_String P))
                 (filter spec_retained (sheet_to_json P (Sheets wb sheetName))))
     @ [CHR 0x0A]"

definition spec_blocks :: "('ws, 'v) platform \<Rightarrow> 'ws workbook \<Rightarrow> string list" where
  "spec_blocks P wb = map (spec_block P wb) (SheetNames wb)"

text \<open>
  The lines of a text, each ended by a newline (a rest after the last newline is a
  line too), and the lines that have the form of a header, \<open>===== <name> =====\<close>.
\<close>

fun split_lines :: "string \<Rightarrow> string list" where
  "split_lines [] = []"
| "split_lines (c # cs) =
     (if c = CHR 0x0A then [] # split_lines cs
      else (case split_lines cs of [] \<Rightarrow> [[c]] | l # ls \<Rightarrow> (c # l) # ls))"

definition is_header_line :: "string \<Rightarrow> bool" where
  "is_header_line l =
     (12 \<le> length l \<and> take 6 l = ''===== '' \<and> drop (length l - 6) l = '' ====='')"

definition header_lines :: "string \<Rightarrow> string list" where
  "header_lines text = filter is_header_line (split_lines text)"

text \<open>
  A text that is empty or ends with a newline: what follows it starts a new line.
\<close>

definition ended :: "string \<Rightarrow> bool" where
  "ended x = (x = [] \<or> last x = CHR 0x0A)"

text \<open>
  Workbooks in which a line of that form can only be a header: no sheet name spans
  lines, and no line that a row adds to the text (\<open>row_step\<close> on the empty text) has
  the form.
\<close>

definition names_on_one_line :: "'ws workbook \<Rightarrow> bool" where
  "names_on_one_line wb = list_all (\<lambda>sheetName. CHR 0x0A \<notin> set sheetName) (SheetNames wb)"

definition no_row_like_header :: "('ws, 'v) platform \<Rightarrow> 'ws workbook \<Rightarrow> bool" where
  "no_row_like_header P wb =
     list_all (\<lambda>sheetName.
        list_all (\<lambda>row. header_lines (row_step (js_String P) [] row) = [])
          (sheet_to_json P (Sheets wb sheetName)))
       (SheetNames wb)"

subsection \<open>Session state\<close>

text \<open>
  The reactive fields of the component. \<open>fileInput\<close> is the value of the file input
  element the template binds to the ref of that name (\<open>None\<close> while the ref is unset); the
  browser sets it when a file is picked, the component only resets it.
\<close>

record session =
  fileInput :: "string option"
  convertedText :: string
  isProcessing :: bool
  fileName :: string
  errorMessage :: string

definition initial :: session where
  "initial = \<lparr>fileInput = Some [], convertedText = [], isProcessing = False,
               fileName = [], errorMessage = []\<rparr>"

subsection \<open>handleFileUpload\<close>

text \<open>
  \<open>handleFileUpload\<close> is asynchronous with one suspension point, the \<open>await\<close> of the
  conversion. \<open>upload_start\<close> is its code up to that point, \<open>upload_finish\<close> its code from
  the settled promise on (the \<open>try\<close> continuation or the \<open>catch\<close> block, then \<open>finally\<close>).
\<close>

definition upload_start :: "session \<Rightarrow> File \<Rightarrow> session" where
  "upload_start s f = s\<lparr>fileName := name f, errorMessage := [], isProcessing := True\<rparr>"

definition upload_finish :: "session \<Rightarrow> js_exn + string \<Rightarrow> session" where
  "upload_finish s settled =
     (case settled of
        Inr text \<Rightarrow>
          s\<lparr>convertedText := text,
            fileInput := (case fileInput s of None \<Rightarrow> None | Some v \<Rightarrow> Some [])\<rparr>
      | Inl error \<Rightarrow>
          s\<lparr>errorMessage := (case error of Error message \<Rightarrow> message
                                           | Thrown \<Rightarrow> msg_processing_failed),
            convertedText := []\<rparr>)
     \<lparr>isProcessing := False\<rparr>"

text \<open>
  The whole handler when nothing else runs while the conversion is in flight.
  \<open>target.files\<close> is null (\<open>None\<close>) or a list; only its first file is used.
\<close>

definition handleFileUpload ::
    "('ws, 'v) platform \<Rightarrow> File list option \<Rightarrow> session \<Rightarrow> session" where
  "handleFileUpload P files s =
     (case files of
        None \<Rightarrow> s
      | Some [] \<Rightarrow> s
      | Some (f # rest) \<Rightarrow> upload_finish (upload_start s f) (convertExcelToText P f))"

subsection \<open>downloadTextFile\<close>

text \<open>
  \<open>fileName.value.replace(/\.[^/.]+$/, '')\<close>. \<open>ext_chars\<close> is \<open>[^/.]+$\<close> at the start of
  its argument, \<open>ext_match\<close> the whole expression at the start of its argument, and
  \<open>replace_ext\<close> the search for the first position where it matches; a match runs to
  the end of the string, so nothing follows the replaced part.
\<close>

fun ext_chars :: "string \<Rightarrow> bool" where
  "ext_chars [] = False"
| "ext_chars [c] = (c \<noteq> CHR ''/'' \<and> c \<noteq> CHR ''.'')"
| "ext_chars (c # d # ds) = (c \<noteq> CHR ''/'' \<and> c \<noteq> CHR ''.'' \<and> ext_chars (d # ds))"

fun ext_match :: "string \<Rightarrow> bool" where
  "ext_match [] = False"
| "ext_match (c # cs) = (c = CHR ''.'' \<and> ext_chars cs)"

fun replace_ext :: "string \<Rightarrow> string" where
  "replace_ext [] = []"
| "replace_ext (c # cs) = (if ext_match (c # cs) then [] else c # replace_ext cs)"

text \<open>
  The anchor element that is clicked: its \<open>download\<close> attribute and the blob behind its
  \<open>href\<close>. \<open>None\<close> is the early return, where nothing is created.
\<close>

record anchor =
  download :: string
  blob_parts :: string
  blob_type :: string

definition downloadTextFile :: "session \<Rightarrow> anchor option" where
  "downloadTextFile s =
     (if convertedText s = [] then None
      else
        (let baseName = replace_ext (fileName s)
         in Some \<lparr>download = baseName @ ''.txt'',
                  blob_parts = convertedText s,
                  blob_type = ''text/plain;charset=utf-8''\<rparr>))"

subsection \<open>copyToClipboard and clearResult\<close>

text \<open>
  \<open>writeOk\<close> says whether \<open>navigator.clipboard.writeText\<close> resolves. The second component
  of the result is the text that reaches the clipboard, if any.
\<close>

definition copyToClipboard :: "bool \<Rightarrow> session \<Rightarrow> session \<times> string option" where
  "copyToClipboard writeOk s =
     (if convertedText s = [] then (s, None)
      else if writeOk then (s, Some (convertedText s))
      else (s\<lparr>errorMessage := msg_copy_failed\<rparr>, None))"

definition clearResult :: "session \<Rightarrow> session" where
  "clearResult s = s\<lparr>convertedText := [], fileName := [], errorMessage := []\<rparr>"

subsection \<open>Interleavings of the handlers\<close>

text \<open>
  \<open>handleFileUpload\<close> suspends at the \<open>await\<close> of the conversion and
  \<open>copyToClipboard\<close> at the \<open>await\<close> of the clipboard write, and the template disables
  neither the file input nor the buttons meanwhile. A configuration is the session
  state together with what is awaited: the values the pending conversions will settle
  with, in the order of their selection, and the number of pending clipboard writes
  that will be rejected.
\<close>

record config =
  current :: session
  converting :: "(js_exn + string) list"
  failing_writes :: nat

definition idle :: "session \<Rightarrow> config" where
  "idle s = \<lparr>current = s, converting = [], failing_writes = 0\<rparr>"

text \<open>
  The events: a file selection (the handler runs up to its \<open>await\<close>), the settling of
  the k-th pending conversion (the handler resumes), a click on copy with the outcome
  the clipboard write will have (the handler returns early or runs up to its
  \<open>await\<close>; a resolved write resumes it to no effect), the rejection of a pending
  write (the \<open>catch\<close> block runs), a click on download, a click on clear. An event
  that is not enabled (no such pending conversion, no pending write) changes nothing.
\<close>

datatype event =
  SelectFile "File list option" | Settle nat | Copy bool | CopyRejected | Download | Clear

fun step :: "('ws, 'v) platform \<Rightarrow> config \<Rightarrow> event \<Rightarrow> config" where
  "step P c (SelectFile files) =
     (case files of
        None \<Rightarrow> c
      | Some [] \<Rightarrow> c
      | Some (f # rest) \<Rightarrow>
          c\<lparr>current := upload_start (current c) f,
            converting := converting c @ [convertExcelToText P f]\<rparr>)"
| "step P c (Settle k) =
     (if k < length (converting c)
      then c\<lparr>current := upload_finish (current c) (converting c ! k),
             converting := take k (converting c) @ drop (Suc k) (converting c)\<rparr>
      else c)"
| "step P c (Copy writeOk) =
     (if convertedText (current c) = [] then c
      else if writeOk then c
      else c\<lparr>failing_writes := Suc (failing_writes c)\<rparr>)"
| "step P c CopyRejected =
     (case failing_writes c of
        0 \<Rightarrow> c
      | Suc n \<Rightarrow> c\<lparr>current := (current c)\<lparr>errorMessage := msg_copy_failed\<rparr>,
                   failing_writes := n\<rparr>)"
| "step P c Download = c"
| "step P c Clear = c\<lparr>current := clearResult (current c)\<rparr>"

definition run :: "('ws, 'v) platform \<Rightarrow> config \<Rightarrow> event list \<Rightarrow> config" where
  "run P c evs = foldl (step P) c evs"

definition text_error_exclusive :: "session \<Rightarrow> bool" where
  "text_error_exclusive s = (convertedText s = [] \<or> errorMessage s = [])"

text \<open>
  Event sequences in which no clipboard write fails on a held text and no file is
  selected while a conversion is pending: \<open>allowed\<close> says so of one event in the
  configuration it meets, \<open>admissible\<close> of a sequence from a configuration on.
\<close>

fun allowed :: "config \<Rightarrow> event \<Rightarrow> bool" where
  "allowed c (SelectFile files) =
     (case files of None \<Rightarrow> True | Some [] \<Rightarrow> True | Some (f # rest) \<Rightarrow> converting c = [])"
| "allowed c (Settle k) = True"
| "allowed c (Copy writeOk) = (writeOk \<or> convertedText (current c) = [])"
| "allowed c CopyRejected = True"
| "allowed c Download = True"
| "allowed c Clear = True"

fun admissible :: "('ws, 'v) platform \<Rightarrow> config \<Rightarrow> event list \<Rightarrow> bool" where
  "admissible P c [] = True"
| "admissible P c (e # es) = (allowed c e \<and> admissible P (step P c e) es)"

text \<open>
  The configurations that admissible sequences keep to: at most one of text and error
  is non-empty, the error is empty while a conversion is pending, at most one
  conversion is pending and no clipboard write is about to be rejected.
\<close>

definition calm :: "config \<Rightarrow> bool" where
  "calm c =
     (text_error_exclusive (current c)
      \<and> (converting c \<noteq> [] \<longrightarrow> errorMessage (current c) = [])
      \<and> length (converting c) \<le> 1
      \<and> failing_writes c = 0)"

subsection \<open>Concrete inputs\<close>

text \<open>
  A platform whose worksheets are their own row grids with string-valued cells only, whose
  parser accepts exactly the byte sequence \<open>[1]\<close>, as a workbook with the single sheet of
  the specification's example, and rejects everything else with a message.
\<close>

definition example_rows :: "string cell list list" where
  "example_rows = [[Str ''a'', Str ''b''], [], [Str [], Null]]"

definition example_workbook :: "string cell list list workbook" where
  "example_workbook = \<lparr>SheetNames = [''Sheet1''], Sheets = [''Sheet1'' \<mapsto> example_rows]\<rparr>"

definition example_read :: "bytes \<Rightarrow> js_exn + string cell list list workbook" where
  "example_read data = (if data = [1] then Inr example_workbook else Inl (Error ''bad file''))"

fun example_sheet_to_json :: "string cell list list option \<Rightarrow> string cell list list" where
  "example_sheet_to_json None = []"
| "example_sheet_to_json (Some rows) = rows"

definition example_String :: "string \<Rightarrow> string" where
  "example_String v = v"

definition example_platform :: "(string cell list list, string) platform" where
  "example_platform =
     \<lparr>xlsx_read = example_read, sheet_to_json = example_sheet_to_json,
      js_String = example_String\<rparr>"

text \<open>A workbook with one sheet, \<open>S\<close>, whose only row is the cell \<open>===== S =====\<close>.\<close>

definition header_workbook :: "string cell list list workbook" where
  "header_workbook =
     \<lparr>SheetNames = [''S''], Sheets = [''S'' \<mapsto> [[Str ''===== S ====='']]]\<rparr>"

definition good_file :: File where
  "good_file = \<lparr>name = ''Report.xlsx'', reader = OnLoad (Some [1])\<rparr>"

definition good_copy :: File where
  "good_copy = \<lparr>name = ''Copy of report.xls'', reader = OnLoad (Some [1])\<rparr>"

definition corrupt_file :: File where
  "corrupt_file = \<lparr>name = ''notes.xlsx'', reader = OnLoad (Some [0, 255])\<rparr>"

definition unreadable_file :: File where
  "unreadable_file = \<lparr>name = ''gone.xlsx'', reader = OnError\<rparr>"

section \<open>Properties of the converter\<close>

lemma some_iff_not_all_blank: "some cell_present row = spec_retained row"
  unfolding spec_retained_def
  by (induction row) (auto simp: spec_blank_def elim: cell_present.elims)

lemma join_cell_text: "join tab (map (cell_text str) row) = spec_tabbed (map (spec_cell str) row)"
proof (induction row rule: induct_list012)
  case 1
  show ?case by simp
next
  case (2 c)
  show ?case by (cases c) simp_all
next
  case (3 c d row)
  then show ?case by (cases c) (simp_all add: tab_def)
qed

lemma row_step_spec:
  "row_step str text row = text @ (if spec_retained row then spec_line str row else [])"
  by (simp add: row_step_def some_iff_not_all_blank join_cell_text spec_line_def newline_def)

lemma foldl_row_step:
  "foldl (row_step str) text rows
     = text @ concat (map (spec_line str) (filter spec_retained rows))"
  by (induction rows arbitrary: "text") (simp_all add: row_step_spec)

lemma sheet_step_spec: "sheet_step P wb text sheetName = text @ spec_block P wb sheetName"
  by (simp add: sheet_step_def spec_block_def spec_header_def foldl_row_step newline_def Let_def)

lemma foldl_sheet_step:
  "foldl (sheet_step P wb) text names = text @ concat (map (spec_block P wb) names)"
  by (induction names arbitrary: "text") (simp_all add: sheet_step_spec)



subsection \<open>Lines of the result that have the form of a header\<close>

lemma split_lines_Nil_iff: "split_lines xs = [] \<longleftrightarrow> xs = []"
  by (cases xs) (simp_all split: list.splits)

lemma split_lines_one: "CHR 0x0A \<notin> set l \<Longrightarrow> split_lines (l @ [CHR 0x0A]) = [l]"
  by (induction l) auto

lemma split_lines_after_newline:
  "split_lines (a @ CHR 0x0A # b) = split_lines (a @ [CHR 0x0A]) @ split_lines b"
proof (induction a)
  case Nil
  show ?case by simp
next
  case (Cons c a)
  have "split_lines (a @ [CHR 0x0A]) \<noteq> []"
    by (simp add: split_lines_Nil_iff)
  then obtain l ls where "split_lines (a @ [CHR 0x0A]) = l # ls"
    by (cases "split_lines (a @ [CHR 0x0A])") auto
  with Cons.IH show ?case by simp
qed

lemma split_lines_append: "ended x \<Longrightarrow> split_lines (x @ y) = split_lines x @ split_lines y"
proof (cases "x = []")
  case True
  then show ?thesis by simp
next
  case False
  assume "ended x"
  with False have "x = butlast x @ [CHR 0x0A]"
    by (metis ended_def append_butlast_last_id)
  then obtain a where x: "x = a @ [CHR 0x0A]" ..
  show ?thesis
    unfolding x using split_lines_after_newline [of a y] by simp
qed

lemma ended_append: "ended x \<Longrightarrow> ended y \<Longrightarrow> ended (x @ y)"
  by (cases "y = []") (auto simp: ended_def)

lemma ended_concat: "(\<And>p. p \<in> set ps \<Longrightarrow> ended p) \<Longrightarrow> ended (concat ps)"
  by (induction ps) (simp_all add: ended_append, simp add: ended_def)

lemma header_lines_append: "ended x \<Longrightarrow> header_lines (x @ y) = header_lines x @ header_lines y"
  by (simp add: header_lines_def split_lines_append)

lemma header_lines_concat:
  "(\<And>p. p \<in> set ps \<Longrightarrow> ended p)
     \<Longrightarrow> header_lines (concat ps) = concat (map header_lines ps)"
proof (induction ps)
  case Nil
  show ?case by (simp add: header_lines_def)
next
  case (Cons p ps)
  then show ?case by (simp add: header_lines_append)
qed

lemma is_header_line_header: "is_header_line (''===== '' @ sheetName @ '' ====='')"
  by (simp add: is_header_line_def)

lemma header_lines_header:
  "CHR 0x0A \<notin> set sheetName
     \<Longrightarrow> header_lines (spec_header sheetName) = [''===== '' @ sheetName @ '' ====='']"
proof -
  assume "CHR 0x0A \<notin> set sheetName"
  then have "CHR 0x0A \<notin> set (''===== '' @ sheetName @ '' ====='')"
    by simp
  then have "split_lines ((''===== '' @ sheetName @ '' ====='') @ [CHR 0x0A])
               = [''===== '' @ sheetName @ '' ====='']"
    by (rule split_lines_one)
  then show ?thesis
    using is_header_line_header [of sheetName] by (simp add: header_lines_def spec_header_def)
qed

lemma ended_spec_line: "ended (spec_line str row)"
  by (simp add: ended_def spec_line_def)

lemma row_step_empty:
  "row_step str [] row = (if spec_retained row then spec_line str row else [])"
  by (simp add: row_step_spec)

lemma header_lines_rows:
  "list_all (\<lambda>row. header_lines (row_step str [] row) = []) rows
     \<Longrightarrow> header_lines (concat (map (spec_line str) (filter spec_retained rows))) = []"
proof -
  assume plain: "list_all (\<lambda>row. header_lines (row_step str [] row) = []) rows"
  have "header_lines (concat (map (spec_line str) (filter spec_retained rows)))
          = concat (map header_lines (map (spec_line str) (filter spec_retained rows)))"
    by (rule header_lines_concat) (auto simp: ended_spec_line)
  also have "\<dots> = []"
    using plain by (auto simp: list_all_iff row_step_empty)
  finally show ?thesis .
qed

lemma ended_spec_block: "ended (spec_block P wb sheetName)"
  by (simp add: ended_def spec_block_def)

lemma header_lines_block:
  assumes "CHR 0x0A \<notin> set sheetName"
    and "list_all (\<lambda>row. header_lines (row_step (js_String P) [] row) = [])
           (sheet_to_json P (Sheets wb sheetName))"
  shows "header_lines (spec_block P wb sheetName) = [''===== '' @ sheetName @ '' ====='']"
proof -
  let ?rows = "concat (map (spec_line (js_String P))
                 (filter spec_retained (sheet_to_json P (Sheets wb sheetName))))"
  have e1: "ended (spec_header sheetName)"
    by (simp add: ended_def spec_header_def)
  have e2: "ended ?rows"
    by (rule ended_concat) (auto simp: ended_spec_line)
  have "header_lines (spec_block P wb sheetName)
          = header_lines (spec_header sheetName) @ header_lines ?rows @ header_lines [CHR 0x0A]"
    unfolding spec_block_def using e1 e2 by (simp add: header_lines_append)
  also have "\<dots> = [''===== '' @ sheetName @ '' ====='']"
    using assms by (simp add: header_lines_header header_lines_rows)
       (simp add: header_lines_def is_header_line_def)
  finally show ?thesis .
qed

lemma header_lines_of_blocks:
  "list_all (\<lambda>sheetName. CHR 0x0A \<notin> set sheetName) names
     \<Longrightarrow> list_all (\<lambda>sheetName.
           list_all (\<lambda>row. header_lines (row_step (js_String P) [] row) = [])
             (sheet_to_json P (Sheets wb sheetName))) names
     \<Longrightarrow> concat (map header_lines (map (spec_block P wb) names))
           = map (\<lambda>sheetName. ''===== '' @ sheetName @ '' ====='') names"
  by (induction names) (simp_all add: header_lines_block)

lemma header_lines_blocks:
  assumes "names_on_one_line wb" and "no_row_like_header P wb"
  shows "header_lines (concat (spec_blocks P wb))
           = map (\<lambda>sheetName. ''===== '' @ sheetName @ '' ====='') (SheetNames wb)"
proof -
  have "header_lines (concat (spec_blocks P wb)) = concat (map header_lines (spec_blocks P wb))"
    by (rule header_lines_concat) (auto simp: spec_blocks_def ended_spec_block)
  also have "\<dots> = map (\<lambda>sheetName. ''===== '' @ sheetName @ '' ====='') (SheetNames wb)"
    unfolding spec_blocks_def
    using assms by (intro header_lines_of_blocks) (simp_all add: names_on_one_line_def no_row_like_header_def)
  finally show ?thesis .
qed

section \<open>Properties of the session handlers\<close>

lemma upload_finish_Inl:
  "upload_finish s (Inl e)
     = s\<lparr>errorMessage := (case e of Error message \<Rightarrow> message | Thrown \<Rightarrow> msg_processing_failed),
         convertedText := [], isProcessing := False\<rparr>"
  by (simp add: upload_finish_def)

lemma handleFileUpload_Cons:
  "handleFileUpload P (Some (f # rest)) s
     = upload_finish (upload_start s f) (convertExcelToText P f)"
  by (simp add: handleFileUpload_def)

lemma upload_finish_Inr:
  "upload_finish s (Inr t)
     = s\<lparr>convertedText := t,
         fileInput := (case fileInput s of None \<Rightarrow> None | Some v \<Rightarrow> Some []),
         isProcessing := False\<rparr>"
  by (simp add: upload_finish_def)

text \<open>The handlers run without interruption are particular event sequences.\<close>

lemma select_then_settle:
  "current (run P (idle s) [SelectFile files, Settle 0]) = handleFileUpload P files s"
proof (cases files)
  case None
  then show ?thesis by (simp add: run_def idle_def handleFileUpload_def)
next
  case (Some fs)
  then show ?thesis
    by (cases fs) (simp_all add: run_def idle_def handleFileUpload_def)
qed

lemma copy_then_rejected:
  "current (run P (idle s) [Copy writeOk, CopyRejected]) = fst (copyToClipboard writeOk s)"
  by (simp add: run_def idle_def copyToClipboard_def)

subsection \<open>The regular expression of the download name\<close>

lemma ext_chars_iff:
  "ext_chars cs \<longleftrightarrow> cs \<noteq> [] \<and> CHR ''/'' \<notin> set cs \<and> CHR ''.'' \<notin> set cs"
  by (induction cs rule: ext_chars.induct) auto

lemma replace_ext_strips:
  "ext \<noteq> [] \<Longrightarrow> CHR ''/'' \<notin> set ext \<Longrightarrow> CHR ''.'' \<notin> set ext
     \<Longrightarrow> replace_ext (base @ ''.'' @ ext) = base"
  by (induction base) (simp_all add: ext_chars_iff)

lemma replace_ext_unchanged:
  "\<not> (\<exists>base ext. s = base @ ''.'' @ ext \<and> ext \<noteq> []
          \<and> CHR ''/'' \<notin> set ext \<and> CHR ''.'' \<notin> set ext)
     \<Longrightarrow> replace_ext s = s"
proof (induction s)
  case Nil
  show ?case by simp
next
  case (Cons c cs)
  have no_match: "\<not> ext_match (c # cs)"
  proof
    assume "ext_match (c # cs)"
    then have "c # cs = [] @ ''.'' @ cs \<and> cs \<noteq> []
                 \<and> CHR ''/'' \<notin> set cs \<and> CHR ''.'' \<notin> set cs"
      by (simp add: ext_chars_iff)
    with Cons.prems show False by blast
  qed
  have "\<not> (\<exists>base ext. cs = base @ ''.'' @ ext \<and> ext \<noteq> []
          \<and> CHR ''/'' \<notin> set ext \<and> CHR ''.'' \<notin> set ext)"
  proof
    assume "\<exists>base ext. cs = base @ ''.'' @ ext \<and> ext \<noteq> []
          \<and> CHR ''/'' \<notin> set ext \<and> CHR ''.'' \<notin> set ext"
    then obtain base ext where "cs = base @ ''.'' @ ext" "ext \<noteq> []"
        "CHR ''/'' \<notin> set ext" "CHR ''.'' \<notin> set ext"
      by blast
    then have "c # cs = (c # base) @ ''.'' @ ext \<and> ext \<noteq> []
          \<and> CHR ''/'' \<notin> set ext \<and> CHR ''.'' \<notin> set ext"
      by simp
    with Cons.prems show False by blast
  qed
  then have "replace_ext cs = cs" by (rule Cons.IH)
  with no_match show ?case by simp
qed

subsection \<open>Text and error under the user actions\<close>

lemma exclusive_handleFileUpload:
  "text_error_exclusive (handleFileUpload P (Some (f # rest)) s)"
  by (cases "convertExcelToText P f")
     (simp_all add: handleFileUpload_def upload_finish_def upload_start_def
        text_error_exclusive_def)

subsection \<open>Admissible event sequences\<close>

lemma calm_idle_initial: "calm (idle initial)"
  by (simp add: calm_def idle_def initial_def text_error_exclusive_def)

lemma calm_settle: "calm c \<Longrightarrow> calm (step P c (Settle k))"
proof (cases "k < length (converting c)")
  case False
  assume "calm c"
  with False show ?thesis by simp
next
  case True
  assume c: "calm c"
  with True obtain r where r: "converting c = [r]" and k: "k = 0"
    by (cases "converting c") (auto simp: calm_def)
  from c r have "errorMessage (current c) = []"
    by (simp add: calm_def)
  with c r k show ?thesis
    by (cases r) (simp_all add: calm_def text_error_exclusive_def upload_finish_def)
qed

lemma calm_select: "calm c \<Longrightarrow> allowed c (SelectFile files) \<Longrightarrow> calm (step P c (SelectFile files))"
proof (cases files)
  case None
  assume "calm c"
  with None show ?thesis by simp
next
  case (Some fs)
  assume "calm c" "allowed c (SelectFile files)"
  with Some show ?thesis
    by (cases fs) (simp_all add: calm_def text_error_exclusive_def upload_start_def)
qed

lemma calm_step: "calm c \<Longrightarrow> allowed c e \<Longrightarrow> calm (step P c e)"
proof (cases e)
  case (SelectFile files)
  assume "calm c" "allowed c e"
  with SelectFile show ?thesis by (simp only: calm_select)
next
  case (Settle k)
  assume "calm c"
  with Settle show ?thesis by (simp only: calm_settle)
next
  case (Copy writeOk)
  assume "calm c" "allowed c e"
  with Copy show ?thesis by auto
next
  case CopyRejected
  assume "calm c"
  with CopyRejected show ?thesis by (simp add: calm_def)
next
  case Download
  assume "calm c"
  with Download show ?thesis by simp
next
  case Clear
  assume "calm c"
  with Clear show ?thesis by (simp add: calm_def clearResult_def text_error_exclusive_def)
qed

lemma calm_foldl: "calm c \<Longrightarrow> admissible P c evs \<Longrightarrow> calm (foldl (step P) c evs)"
proof (induction evs arbitrary: c)
  case Nil
  then show ?case by simp
next
  case (Cons e evs)
  from Cons.prems have "calm (step P c e)" and "admissible P (step P c e) evs"
    by (simp_all add: calm_step)
  then have "calm (foldl (step P) (step P c e) evs)"
    by (rule Cons.IH)
  then show ?case by simp
qed

section \<open>The claims\<close>

text \<open>
  Claim C1, as stated, fails in its last part: the converter writes cell text as it
  is, so the sheet \<open>S\<close> whose only row is the cell \<open>===== S =====\<close> yields a result
  with two lines equal to the header line of the one sheet.
\<close>

theorem header_line_count_counterexample:
  "SheetNames header_workbook = [''S'']
   \<and> header_lines (workbook_text example_platform header_workbook)
       = [''===== S ====='', ''===== S ====='']"
  by (simp add: header_workbook_def workbook_text_def sheet_step_def row_step_def
      example_platform_def example_String_def newline_def header_lines_def is_header_line_def)

text \<open>
  Claim C1, amended. For every workbook the conversion result is the concatenation, over
  the sheet names in their declared order, of the sheets' blocks: the header line
  \<open>===== name =====\<close> and a newline, one line per retained row (the cells in column
  order, absent and null ones as the empty string, a single tab between neighbours, a
  newline at the end), and one more newline; a file whose bytes parse to the workbook
  converts to that concatenation. When no sheet name contains a newline and no line
  that a row adds has the form \<open>===== ... =====\<close>, the lines of the result that have
  this form are exactly the header lines of the sheets, one per sheet, in their
  declared order.
\<close>

theorem conversion_is_concatenation_of_blocks:
  "workbook_text P wb = concat (spec_blocks P wb)
   \<and> (reader f = OnLoad (Some data) \<and> xlsx_read P data = Inr wb
        \<longrightarrow> convertExcelToText P f = Inr (concat (spec_blocks P wb)))
   \<and> (names_on_one_line wb \<and> no_row_like_header P wb
        \<longrightarrow> header_lines (workbook_text P wb)
              = map (\<lambda>sheetName. ''===== '' @ sheetName @ '' ====='') (SheetNames wb))"
proof -
  have whole: "workbook_text P wb = concat (spec_blocks P wb)"
    by (simp add: workbook_text_def spec_blocks_def foldl_sheet_step)
  have conv: "reader f = OnLoad (Some data) \<and> xlsx_read P data = Inr wb
        \<longrightarrow> convertExcelToText P f = Inr (concat (spec_blocks P wb))"
    by (simp add: convertExcelToText_def whole)
  have headers: "names_on_one_line wb \<and> no_row_like_header P wb
        \<longrightarrow> header_lines (workbook_text P wb)
              = map (\<lambda>sheetName. ''===== '' @ sheetName @ '' ====='') (SheetNames wb)"
    unfolding whole using header_lines_blocks by blast
  show ?thesis by (intro conjI whole conv headers)
qed

text \<open>
  The example workbook, read from the bytes of \<open>good_file\<close>: one block, names and
  rows as required, one header line.
\<close>

theorem conversion_is_concatenation_of_blocks_witness:
  "workbook_text example_platform example_workbook
     = concat (spec_blocks example_platform example_workbook)
   \<and> spec_blocks example_platform example_workbook
     = [''===== Sheet1 ====='' @ [CHR 0x0A] @ ''a'' @ [CHR 0x09] @ ''b'' @ [CHR 0x0A] @ [CHR 0x0A]]
   \<and> convertExcelToText example_platform good_file
     = Inr (concat (spec_blocks example_platform example_workbook))
   \<and> names_on_one_line example_workbook
   \<and> no_row_like_header example_platform example_workbook
   \<and> header_lines (workbook_text example_platform example_workbook) = [''===== Sheet1 ====='']"
proof -
  have a: "reader good_file = OnLoad (Some [1])
           \<and> xlsx_read example_platform [1] = Inr example_workbook"
    by (simp add: good_file_def example_platform_def example_read_def)
  have b: "spec_blocks example_platform example_workbook
     = [''===== Sheet1 ====='' @ [CHR 0x0A] @ ''a'' @ [CHR 0x09] @ ''b'' @ [CHR 0x0A] @ [CHR 0x0A]]"
    by (simp add: spec_blocks_def spec_block_def spec_header_def spec_line_def spec_retained_def
        spec_blank_def example_platform_def example_workbook_def example_rows_def example_String_def)
  have c: "names_on_one_line example_workbook"
    by (simp add: names_on_one_line_def example_workbook_def)
  have d: "no_row_like_header example_platform example_workbook"
    by (simp add: no_row_like_header_def example_workbook_def example_platform_def
        example_rows_def example_String_def row_step_def header_lines_def is_header_line_def
        newline_def tab_def)
  have e: "SheetNames example_workbook = [''Sheet1'']"
    by (simp add: example_workbook_def)
  note blocks =
    conversion_is_concatenation_of_blocks [of example_platform example_workbook good_file "[1]"]
  from blocks have w: "workbook_text example_platform example_workbook
     = concat (spec_blocks example_platform example_workbook)"
    by (rule conjunct1)
  have cv: "convertExcelToText example_platform good_file
     = Inr (concat (spec_blocks example_platform example_workbook))"
    by (rule mp [OF blocks [THEN conjunct2, THEN conjunct1]]) (rule a)
  have "header_lines (workbook_text example_platform example_workbook)
     = map (\<lambda>sheetName. ''===== '' @ sheetName @ '' ====='') (SheetNames example_workbook)"
    by (rule mp [OF blocks [THEN conjunct2, THEN conjunct2]]) (intro conjI c d)
  with e have hl: "header_lines (workbook_text example_platform example_workbook)
     = [''===== Sheet1 ====='']"
    by simp
  show ?thesis by (intro conjI w b cv c d hl)
qed



text \<open>
  Claim C3. When the conversion of the selected file is rejected, the handler ends with
  the message of the error in the error field (the fixed message
  \<open>msg_processing_failed\<close> for a thrown value that is no \<open>Error\<close>), an empty text
  field and the processing flag false, whatever the state held before. A failed read
  rejects with \<open>msg_read_failed\<close>, a failed parse with the message the parser threw.
  The code that runs once the promise is rejected does so on any state it resumes in.
\<close>

theorem failed_conversion_shows_message_only:
  "(convertExcelToText P f = Inl e \<longrightarrow>
      errorMessage (handleFileUpload P (Some (f # rest)) s)
        = (case e of Error message \<Rightarrow> message | Thrown \<Rightarrow> msg_processing_failed)
      \<and> convertedText (handleFileUpload P (Some (f # rest)) s) = []
      \<and> isProcessing (handleFileUpload P (Some (f # rest)) s) = False)
   \<and> (reader f = OnError \<longrightarrow>
        convertExcelToText P f = Inl (Error msg_read_failed)
        \<and> errorMessage (handleFileUpload P (Some (f # rest)) s) = msg_read_failed)
   \<and> (reader f = OnLoad (Some data) \<and> xlsx_read P data = Inl (Error message) \<longrightarrow>
        convertExcelToText P f = Inl (Error message)
        \<and> errorMessage (handleFileUpload P (Some (f # rest)) s) = message)
   \<and> upload_finish s' (Inl e)
       = s'\<lparr>errorMessage := (case e of Error message \<Rightarrow> message
                                         | Thrown \<Rightarrow> msg_processing_failed),
            convertedText := [], isProcessing := False\<rparr>"
proof -
  have settled: "upload_finish s' (Inl e)
       = s'\<lparr>errorMessage := (case e of Error message \<Rightarrow> message
                                         | Thrown \<Rightarrow> msg_processing_failed),
            convertedText := [], isProcessing := False\<rparr>"
    by (rule upload_finish_Inl)
  have general: "convertExcelToText P f = Inl e \<longrightarrow>
      errorMessage (handleFileUpload P (Some (f # rest)) s)
        = (case e of Error message \<Rightarrow> message | Thrown \<Rightarrow> msg_processing_failed)
      \<and> convertedText (handleFileUpload P (Some (f # rest)) s) = []
      \<and> isProcessing (handleFileUpload P (Some (f # rest)) s) = False"
    by (simp add: handleFileUpload_Cons upload_finish_Inl)
  have read_error: "reader f = OnError \<longrightarrow>
        convertExcelToText P f = Inl (Error msg_read_failed)
        \<and> errorMessage (handleFileUpload P (Some (f # rest)) s) = msg_read_failed"
    by (simp add: handleFileUpload_Cons convertExcelToText_def upload_finish_Inl)
  have parse_error: "reader f = OnLoad (Some data) \<and> xlsx_read P data = Inl (Error message) \<longrightarrow>
        convertExcelToText P f = Inl (Error message)
        \<and> errorMessage (handleFileUpload P (Some (f # rest)) s) = message"
    by (simp add: handleFileUpload_Cons convertExcelToText_def upload_finish_Inl)
  show ?thesis by (intro conjI general read_error parse_error settled)
qed

text \<open>
  A corrupt and an unreadable file, selected while an old result is displayed.
\<close>

theorem failed_conversion_shows_message_only_witness:
  "convertExcelToText example_platform corrupt_file = Inl (Error ''bad file'')
   \<and> errorMessage (handleFileUpload example_platform (Some [corrupt_file])
        (initial\<lparr>convertedText := ''old''\<rparr>)) = ''bad file''
   \<and> convertedText (handleFileUpload example_platform (Some [corrupt_file])
        (initial\<lparr>convertedText := ''old''\<rparr>)) = []
   \<and> isProcessing (handleFileUpload example_platform (Some [corrupt_file])
        (initial\<lparr>convertedText := ''old''\<rparr>)) = False
   \<and> errorMessage (handleFileUpload example_platform (Some [unreadable_file])
        (initial\<lparr>convertedText := ''old''\<rparr>)) = msg_read_failed"
proof -
  have parse: "reader corrupt_file = OnLoad (Some [0, 255])
               \<and> xlsx_read example_platform [0, 255] = Inl (Error ''bad file'')"
    by (simp add: corrupt_file_def example_platform_def example_read_def)
  have unreadable: "reader unreadable_file = OnError"
    by (simp add: unreadable_file_def)
  from failed_conversion_shows_message_only
         [of example_platform corrupt_file "Error ''bad file''" "[]"
             "initial\<lparr>convertedText := ''old''\<rparr>" "[0, 255]" "''bad file''"] parse
  have first: "convertExcelToText example_platform corrupt_file = Inl (Error ''bad file'')
   \<and> errorMessage (handleFileUpload example_platform (Some [corrupt_file])
        (initial\<lparr>convertedText := ''old''\<rparr>)) = ''bad file''
   \<and> convertedText (handleFileUpload example_platform (Some [corrupt_file])
        (initial\<lparr>convertedText := ''old''\<rparr>)) = []
   \<and> isProcessing (handleFileUpload example_platform (Some [corrupt_file])
        (initial\<lparr>convertedText := ''old''\<rparr>)) = False"
    by simp
  from failed_conversion_shows_message_only
         [of example_platform unreadable_file _ "[]" "initial\<lparr>convertedText := ''old''\<rparr>"]
       unreadable
  have second: "errorMessage (handleFileUpload example_platform (Some [unreadable_file])
        (initial\<lparr>convertedText := ''old''\<rparr>)) = msg_read_failed"
    by blast
  from first second show ?thesis by blast
qed

text \<open>
  Claim C4, as stated, fails, in two ways. After a successful conversion a copy whose
  clipboard write is rejected writes the error message and keeps the text. And when a
  second file is selected while the conversion of a first is pending, the first fails
  and the second then succeeds, the success stores its text beside the message of the
  failure. Both runs end with text and error non-empty.
\<close>

theorem text_and_error_exclusive_counterexample:
  "\<not> text_error_exclusive (current (run example_platform (idle initial)
        [SelectFile (Some [good_file]), Settle 0, Copy False, CopyRejected]))
   \<and> \<not> text_error_exclusive (current (run example_platform (idle initial)
        [SelectFile (Some [corrupt_file]), SelectFile (Some [good_file]), Settle 0, Settle 0]))"
  by (simp add: run_def idle_def text_error_exclusive_def upload_finish_def upload_start_def
      convertExcelToText_def good_file_def corrupt_file_def example_platform_def
      example_read_def initial_def workbook_text_def example_workbook_def sheet_step_def
      newline_def msg_copy_failed_def)

text \<open>
  Claim C4, amended. In every state reached from the initial one by a sequence of file
  selections, settlings of pending conversions, copies, downloads and clears, in any
  interleaving, in which no clipboard write is rejected on a non-empty text and no file
  is selected while a conversion is pending, at most one of the text and the error
  field is non-empty. This holds at every point of such a sequence, also while a
  conversion is pending.
\<close>

theorem text_and_error_exclusive_when_admissible:
  "admissible P (idle initial) evs
     \<Longrightarrow> text_error_exclusive (current (run P (idle initial) evs))"
proof -
  assume "admissible P (idle initial) evs"
  with calm_idle_initial have "calm (foldl (step P) (idle initial) evs)"
    by (rule calm_foldl)
  then show ?thesis by (simp add: run_def calm_def)
qed

text \<open>
  A sequence over all events: a copy and a clear while the first conversion is pending,
  a failing conversion, an empty selection, a rejected write on an empty text.
\<close>

theorem text_and_error_exclusive_when_admissible_witness:
  "admissible example_platform (idle initial)
     [SelectFile (Some [good_file]), Copy False, Clear, Settle 0, Copy True, Download,
      SelectFile (Some [corrupt_file]), SelectFile None, Settle 0, Clear,
      SelectFile (Some [good_copy, corrupt_file]), Settle 0]
   \<and> text_error_exclusive (current (run example_platform (idle initial)
     [SelectFile (Some [good_file]), Copy False, Clear, Settle 0, Copy True, Download,
      SelectFile (Some [corrupt_file]), SelectFile None, Settle 0, Clear,
      SelectFile (Some [good_copy, corrupt_file]), Settle 0]))"
proof -
  have ok: "admissible example_platform (idle initial)
     [SelectFile (Some [good_file]), Copy False, Clear, Settle 0, Copy True, Download,
      SelectFile (Some [corrupt_file]), SelectFile None, Settle 0, Clear,
      SelectFile (Some [good_copy, corrupt_file]), Settle 0]"
    by (simp add: idle_def initial_def upload_start_def upload_finish_def clearResult_def
        convertExcelToText_def good_file_def corrupt_file_def good_copy_def
        example_platform_def example_read_def)
  from text_and_error_exclusive_when_admissible [OF ok] ok
  show ?thesis by (intro conjI)
qed

text \<open>
  Claim C5, as stated, fails: the start of a file selection does not touch the text
  field. Selecting a second file while the result of the first is held leaves that
  result in place when the conversion is invoked.
\<close>

theorem selection_start_keeps_text_counterexample:
  "convertedText (upload_start (handleFileUpload example_platform (Some [good_file]) initial)
                    good_copy) \<noteq> []"
  by (simp add: upload_start_def handleFileUpload_def upload_finish_def convertExcelToText_def
      good_file_def example_platform_def example_read_def initial_def workbook_text_def
      example_workbook_def sheet_step_def newline_def)

text \<open>
  Claim C5, amended. The conversion of a selected file is invoked in the state
  \<open>upload_start\<close>: the error field is reset to empty, the file name is the selected
  file's name and the processing flag is set, and nothing else is written, so the text
  field is as before (unlike after \<open>clearResult\<close>, neither the text nor the file name is
  empty). The text changes only when the conversion settles, in whatever state the
  handler resumes: a resolved conversion stores its text, a rejected one clears the
  text. A selection that runs undisturbed therefore ends with the converted text and an
  empty error, or with an empty text.
\<close>

theorem selection_start_resets_error_only:
  "handleFileUpload P (Some (f # rest)) s
     = upload_finish (upload_start s f) (convertExcelToText P f)
   \<and> upload_start s f = s\<lparr>fileName := name f, errorMessage := [], isProcessing := True\<rparr>
   \<and> convertedText (upload_start s f) = convertedText s
   \<and> upload_finish s' (Inr t)
       = s'\<lparr>convertedText := t,
            fileInput := (case fileInput s' of None \<Rightarrow> None | Some v \<Rightarrow> Some []),
            isProcessing := False\<rparr>
   \<and> convertedText (upload_finish s' (Inl e)) = []
   \<and> (convertExcelToText P f = Inr t \<longrightarrow>
        convertedText (handleFileUpload P (Some (f # rest)) s) = t
        \<and> errorMessage (handleFileUpload P (Some (f # rest)) s) = []
        \<and> fileName (handleFileUpload P (Some (f # rest)) s) = name f
        \<and> isProcessing (handleFileUpload P (Some (f # rest)) s) = False)
   \<and> (convertExcelToText P f = Inl e \<longrightarrow>
        convertedText (handleFileUpload P (Some (f # rest)) s) = [])"
proof -
  have unfold: "handleFileUpload P (Some (f # rest)) s
     = upload_finish (upload_start s f) (convertExcelToText P f)"
    by (rule handleFileUpload_Cons)
  have start: "upload_start s f = s\<lparr>fileName := name f, errorMessage := [], isProcessing := True\<rparr>"
    by (simp add: upload_start_def)
  have kept: "convertedText (upload_start s f) = convertedText s"
    by (simp add: upload_start_def)
  have stored: "upload_finish s' (Inr t)
       = s'\<lparr>convertedText := t,
            fileInput := (case fileInput s' of None \<Rightarrow> None | Some v \<Rightarrow> Some []),
            isProcessing := False\<rparr>"
    by (rule upload_finish_Inr)
  have cleared: "convertedText (upload_finish s' (Inl e)) = []"
    by (simp add: upload_finish_Inl)
  have success: "convertExcelToText P f = Inr t \<longrightarrow>
        convertedText (handleFileUpload P (Some (f # rest)) s) = t
        \<and> errorMessage (handleFileUpload P (Some (f # rest)) s) = []
        \<and> fileName (handleFileUpload P (Some (f # rest)) s) = name f
        \<and> isProcessing (handleFileUpload P (Some (f # rest)) s) = False"
    by (simp add: handleFileUpload_Cons upload_finish_Inr upload_start_def)
  have failure: "convertExcelToText P f = Inl e \<longrightarrow>
        convertedText (handleFileUpload P (Some (f # rest)) s) = []"
    by (simp add: handleFileUpload_Cons upload_finish_Inl)
  show ?thesis by (intro conjI unfold start kept stored cleared success failure)
qed

text \<open>
  A readable and an unreadable file, each selected while an old result is displayed.
\<close>

theorem selection_start_resets_error_only_witness:
  "convertExcelToText example_platform good_file
     = Inr (''===== Sheet1 ====='' @ [CHR 0x0A] @ ''a'' @ [CHR 0x09] @ ''b'' @ [CHR 0x0A, CHR 0x0A])
   \<and> convertedText (handleFileUpload example_platform (Some [good_file])
        (initial\<lparr>convertedText := ''old'', errorMessage := msg_copy_failed\<rparr>))
     = ''===== Sheet1 ====='' @ [CHR 0x0A] @ ''a'' @ [CHR 0x09] @ ''b'' @ [CHR 0x0A, CHR 0x0A]
   \<and> errorMessage (handleFileUpload example_platform (Some [good_file])
        (initial\<lparr>convertedText := ''old'', errorMessage := msg_copy_failed\<rparr>)) = []
   \<and> convertExcelToText example_platform unreadable_file = Inl (Error msg_read_failed)
   \<and> convertedText (handleFileUpload example_platform (Some [unreadable_file])
        (initial\<lparr>convertedText := ''old''\<rparr>)) = []"
proof -
  have good: "convertExcelToText example_platform good_file
     = Inr (''===== Sheet1 ====='' @ [CHR 0x0A] @ ''a'' @ [CHR 0x09] @ ''b'' @ [CHR 0x0A, CHR 0x0A])"
    by (simp add: convertExcelToText_def good_file_def example_platform_def example_read_def
        workbook_text_def example_workbook_def sheet_step_def row_step_def example_rows_def
        example_String_def newline_def tab_def)
  have bad: "convertExcelToText example_platform unreadable_file = Inl (Error msg_read_failed)"
    by (simp add: convertExcelToText_def unreadable_file_def)
  note started = selection_start_resets_error_only
    [of example_platform good_file "[]"
        "initial\<lparr>convertedText := ''old'', errorMessage := msg_copy_failed\<rparr>" _
        "''===== Sheet1 ====='' @ [CHR 0x0A] @ ''a'' @ [CHR 0x09] @ ''b'' @ [CHR 0x0A, CHR 0x0A]"]
  note failed = selection_start_resets_error_only
    [of example_platform unreadable_file "[]" "initial\<lparr>convertedText := ''old''\<rparr>" _ _
        "Error msg_read_failed"]
  have s: "convertedText (handleFileUpload example_platform (Some [good_file])
        (initial\<lparr>convertedText := ''old'', errorMessage := msg_copy_failed\<rparr>))
     = ''===== Sheet1 ====='' @ [CHR 0x0A] @ ''a'' @ [CHR 0x09] @ ''b'' @ [CHR 0x0A, CHR 0x0A]
   \<and> errorMessage (handleFileUpload example_platform (Some [good_file])
        (initial\<lparr>convertedText := ''old'', errorMessage := msg_copy_failed\<rparr>)) = []
   \<and> fileName (handleFileUpload example_platform (Some [good_file])
        (initial\<lparr>convertedText := ''old'', errorMessage := msg_copy_failed\<rparr>)) = name good_file
   \<and> isProcessing (handleFileUpload example_platform (Some [good_file])
        (initial\<lparr>convertedText := ''old'', errorMessage := msg_copy_failed\<rparr>)) = False"
    by (rule mp [OF started [THEN conjunct2, THEN conjunct2, THEN conjunct2, THEN conjunct2,
                             THEN conjunct2, THEN conjunct1]]) (rule good)
  have f: "convertedText (handleFileUpload example_platform (Some [unreadable_file])
        (initial\<lparr>convertedText := ''old''\<rparr>)) = []"
    by (rule mp [OF failed [THEN conjunct2, THEN conjunct2, THEN conjunct2, THEN conjunct2,
                            THEN conjunct2, THEN conjunct2]]) (rule bad)
  show ?thesis by (intro conjI good bad f s [THEN conjunct1] s [THEN conjunct2, THEN conjunct1])
qed

text \<open>
  Claim C6. With a non-empty held text, \<open>downloadTextFile\<close> creates a download whose
  content is the held text and whose name is the file name after the regular-expression
  replacement, followed by \<open>.txt\<close>. The replacement strips the extension: a name
  \<open>base.ext\<close>, with \<open>ext\<close> non-empty and free of \<open>.\<close> and \<open>/\<close>, becomes \<open>base\<close>, and a
  name that has no such ending is unchanged. For the file name \<open>Report.xlsx\<close> and the
  text \<open>"A\tB\n"\<close> the download is \<open>Report.txt\<close> with exactly that content. With an empty
  held text nothing is created.
\<close>

theorem download_is_text_named_txt:
  "(convertedText s \<noteq> [] \<longrightarrow>
      downloadTextFile s
        = Some \<lparr>download = replace_ext (fileName s) @ ''.txt'', blob_parts = convertedText s,
                blob_type = ''text/plain;charset=utf-8''\<rparr>)
   \<and> (ext \<noteq> [] \<and> CHR ''/'' \<notin> set ext \<and> CHR ''.'' \<notin> set ext \<longrightarrow>
        replace_ext (base @ ''.'' @ ext) = base)
   \<and> (\<not> (\<exists>b e. fileName s = b @ ''.'' @ e \<and> e \<noteq> []
              \<and> CHR ''/'' \<notin> set e \<and> CHR ''.'' \<notin> set e) \<longrightarrow>
        replace_ext (fileName s) = fileName s)
   \<and> (fileName s = ''Report.xlsx'' \<and> convertedText s = [CHR ''A'', CHR 0x09, CHR ''B'', CHR 0x0A]
        \<longrightarrow> downloadTextFile s
              = Some \<lparr>download = ''Report.txt'',
                      blob_parts = [CHR ''A'', CHR 0x09, CHR ''B'', CHR 0x0A],
                      blob_type = ''text/plain;charset=utf-8''\<rparr>)
   \<and> (convertedText s = [] \<longrightarrow> downloadTextFile s = None)"
proof -
  have held: "convertedText s \<noteq> [] \<longrightarrow>
      downloadTextFile s
        = Some \<lparr>download = replace_ext (fileName s) @ ''.txt'', blob_parts = convertedText s,
                blob_type = ''text/plain;charset=utf-8''\<rparr>"
    by (simp add: downloadTextFile_def)
  have strip: "ext \<noteq> [] \<and> CHR ''/'' \<notin> set ext \<and> CHR ''.'' \<notin> set ext \<longrightarrow>
        replace_ext (base @ ''.'' @ ext) = base"
    using replace_ext_strips by blast
  have bare: "\<not> (\<exists>b e. fileName s = b @ ''.'' @ e \<and> e \<noteq> []
              \<and> CHR ''/'' \<notin> set e \<and> CHR ''.'' \<notin> set e) \<longrightarrow>
        replace_ext (fileName s) = fileName s"
    using replace_ext_unchanged by blast
  have report: "fileName s = ''Report.xlsx'' \<and> convertedText s = [CHR ''A'', CHR 0x09, CHR ''B'', CHR 0x0A]
        \<longrightarrow> downloadTextFile s
              = Some \<lparr>download = ''Report.txt'',
                      blob_parts = [CHR ''A'', CHR 0x09, CHR ''B'', CHR 0x0A],
                      blob_type = ''text/plain;charset=utf-8''\<rparr>"
    by (simp add: downloadTextFile_def)
  have skipped: "convertedText s = [] \<longrightarrow> downloadTextFile s = None"
    by (simp add: downloadTextFile_def)
  show ?thesis by (intro conjI held strip bare report skipped)
qed

text \<open>
  The example of the specification, a name with two dots, and the initial state.
\<close>

theorem download_is_text_named_txt_witness:
  "downloadTextFile (initial\<lparr>convertedText := [CHR ''A'', CHR 0x09, CHR ''B'', CHR 0x0A],
                             fileName := ''Report.xlsx''\<rparr>)
     = Some \<lparr>download = ''Report.txt'', blob_parts = [CHR ''A'', CHR 0x09, CHR ''B'', CHR 0x0A],
             blob_type = ''text/plain;charset=utf-8''\<rparr>
   \<and> replace_ext (''archive.tar'' @ ''.'' @ ''gz'') = ''archive.tar''
   \<and> downloadTextFile initial = None"
proof -
  have report: "fileName (initial\<lparr>convertedText := [CHR ''A'', CHR 0x09, CHR ''B'', CHR 0x0A],
                             fileName := ''Report.xlsx''\<rparr>) = ''Report.xlsx''
     \<and> convertedText (initial\<lparr>convertedText := [CHR ''A'', CHR 0x09, CHR ''B'', CHR 0x0A],
                             fileName := ''Report.xlsx''\<rparr>) = [CHR ''A'', CHR 0x09, CHR ''B'', CHR 0x0A]"
    by simp
  have gz: "''gz'' \<noteq> [] \<and> CHR ''/'' \<notin> set ''gz'' \<and> CHR ''.'' \<notin> set ''gz''"
    by simp
  have empty: "convertedText initial = []"
    by (simp add: initial_def)
  from download_is_text_named_txt
         [of "initial\<lparr>convertedText := [CHR ''A'', CHR 0x09, CHR ''B'', CHR 0x0A],
                             fileName := ''Report.xlsx''\<rparr>" "''gz''" "''archive.tar''"] report gz
  have one: "downloadTextFile (initial\<lparr>convertedText := [CHR ''A'', CHR 0x09, CHR ''B'', CHR 0x0A],
                             fileName := ''Report.xlsx''\<rparr>)
     = Some \<lparr>download = ''Report.txt'', blob_parts = [CHR ''A'', CHR 0x09, CHR ''B'', CHR 0x0A],
             blob_type = ''text/plain;charset=utf-8''\<rparr>"
    and two: "replace_ext (''archive.tar'' @ ''.'' @ ''gz'') = ''archive.tar''"
    by blast+
  from download_is_text_named_txt [of initial] empty
  have three: "downloadTextFile initial = None"
    by blast
  from one two three show ?thesis by blast
qed

text \<open>
  Claim C7. \<open>copyToClipboard\<close> changes nothing and writes nothing when the held text
  is empty. When the write fails on a non-empty text, the error field becomes the fixed
  non-empty message \<open>msg_copy_failed\<close> and every other field, the text and the file
  name among them, is as before.
\<close>

theorem copy_failure_keeps_text:
  "(convertedText s = [] \<longrightarrow> copyToClipboard writeOk s = (s, None))
   \<and> (convertedText s \<noteq> [] \<longrightarrow>
        copyToClipboard False s = (s\<lparr>errorMessage := msg_copy_failed\<rparr>, None)
        \<and> errorMessage (fst (copyToClipboard False s)) = msg_copy_failed
        \<and> convertedText (fst (copyToClipboard False s)) = convertedText s
        \<and> fileName (fst (copyToClipboard False s)) = fileName s)
   \<and> msg_copy_failed \<noteq> []"
  by (simp add: copyToClipboard_def msg_copy_failed_def)

text \<open>
  A failing copy on the initial state and on a state that holds a result.
\<close>

theorem copy_failure_keeps_text_witness:
  "copyToClipboard False initial = (initial, None)
   \<and> copyToClipboard False (initial\<lparr>convertedText := ''A'', fileName := ''Report.xlsx''\<rparr>)
       = (initial\<lparr>convertedText := ''A'', fileName := ''Report.xlsx'',
                  errorMessage := msg_copy_failed\<rparr>, None)"
proof -
  have empty: "convertedText initial = []"
    by (simp add: initial_def)
  have held: "convertedText (initial\<lparr>convertedText := ''A'', fileName := ''Report.xlsx''\<rparr>) \<noteq> []"
    by simp
  from copy_failure_keeps_text [of initial False] empty
  have one: "copyToClipboard False initial = (initial, None)"
    by blast
  from copy_failure_keeps_text [of "initial\<lparr>convertedText := ''A'', fileName := ''Report.xlsx''\<rparr>"] held
  have two: "copyToClipboard False (initial\<lparr>convertedText := ''A'', fileName := ''Report.xlsx''\<rparr>)
       = (initial\<lparr>convertedText := ''A'', fileName := ''Report.xlsx''\<rparr>\<lparr>errorMessage := msg_copy_failed\<rparr>, None)"
    by blast
  from one two show ?thesis by simp
qed

text \<open>
  Claim C8. \<open>clearResult\<close> sets the text, the file name and the error to the empty
  string and leaves the processing flag (and the file input) as it was; after it,
  \<open>copyToClipboard\<close>, whatever the clipboard would answer, changes no field and writes
  nothing, and \<open>downloadTextFile\<close> creates nothing.
\<close>

theorem clear_resets_and_disables_actions:
  "convertedText (clearResult s) = []
   \<and> fileName (clearResult s) = []
   \<and> errorMessage (clearResult s) = []
   \<and> isProcessing (clearResult s) = isProcessing s
   \<and> fileInput (clearResult s) = fileInput s
   \<and> copyToClipboard writeOk (clearResult s) = (clearResult s, None)
   \<and> downloadTextFile (clearResult s) = None"
  by (simp add: clearResult_def copyToClipboard_def downloadTextFile_def)

text \<open>
  Claim C10. A copy whose clipboard write succeeds leaves every field of the state as
  it is, a displayed error message included; a copy changes the error field only if
  its write fails (and the held text is non-empty).
\<close>

theorem successful_copy_changes_no_field:
  "fst (copyToClipboard True s) = s
   \<and> (errorMessage (fst (copyToClipboard writeOk s)) \<noteq> errorMessage s
        \<longrightarrow> \<not> writeOk \<and> convertedText s \<noteq> [])"
  by (simp add: copyToClipboard_def)

text \<open>
  A failing copy changes the error field; a later successful copy keeps the message.
\<close>

theorem successful_copy_changes_no_field_witness:
  "errorMessage (fst (copyToClipboard False (initial\<lparr>convertedText := ''A''\<rparr>)))
     \<noteq> errorMessage (initial\<lparr>convertedText := ''A''\<rparr>)
   \<and> fst (copyToClipboard True (initial\<lparr>convertedText := ''A'', errorMessage := msg_copy_failed\<rparr>))
     = initial\<lparr>convertedText := ''A'', errorMessage := msg_copy_failed\<rparr>"
proof -
  have changed: "errorMessage (fst (copyToClipboard False (initial\<lparr>convertedText := ''A''\<rparr>)))
     \<noteq> errorMessage (initial\<lparr>convertedText := ''A''\<rparr>)"
    by (simp add: copyToClipboard_def initial_def msg_copy_failed_def)
  from successful_copy_changes_no_field
         [of "initial\<lparr>convertedText := ''A'', errorMessage := msg_copy_failed\<rparr>"]
  have kept: "fst (copyToClipboard True (initial\<lparr>convertedText := ''A'', errorMessage := msg_copy_failed\<rparr>))
     = initial\<lparr>convertedText := ''A'', errorMessage := msg_copy_failed\<rparr>"
    by blast
  from successful_copy_changes_no_field [of "initial\<lparr>convertedText := ''A''\<rparr>" False] changed
  have "\<not> False \<and> convertedText (initial\<lparr>convertedText := ''A''\<rparr>) \<noteq> []"
    by blast
  with changed kept show ?thesis by blast
qed

end
